theory Spec2Isabelle
  imports Main "HOL-Library.Sublist"
begin

section \<open>Data model of \<^verbatim>\<open>src/App.tsx\<close>\<close>

text \<open>
  The component \<^verbatim>\<open>App\<close> keeps eight \<^verbatim>\<open>useState\<close> cells. They are gathered in
  one record; every setter call of the source is a field update. The enum
  \<^verbatim>\<open>AppStatus\<close> and the interface \<^verbatim>\<open>Preset\<close> are imported from \<^verbatim>\<open>./types\<close>;
  the members used by \<^verbatim>\<open>App.tsx\<close> are the four status values and the preset
  fields \<^verbatim>\<open>id\<close>, \<^verbatim>\<open>name\<close>, \<^verbatim>\<open>description\<close>, \<^verbatim>\<open>icon\<close>.
\<close>

datatype AppStatus = IDLE | GENERATING | SUCCESS | ERROR

record Preset =
  preset_id :: string
  preset_name :: string
  description :: string
  icon :: string

record AppState =
  status :: AppStatus
  originalImage :: "string option"
  originalMimeType :: string
  resultImage :: "string option"
  selectedPreset :: Preset
  customPrompt :: string
  error :: "string option"
  needsApiKey :: bool

text \<open>
  The \<^verbatim>\<open>useState\<close> initialisers (lines 8 to 15). The first entry of the preset
  catalogue \<^verbatim>\<open>BACKDROP_PRESETS\<close> lives in \<^verbatim>\<open>./constants\<close> and is a parameter.
\<close>

definition initial_state :: "Preset \<Rightarrow> AppState" where
  "initial_state p0 =
     \<lparr>status = IDLE, originalImage = None, originalMimeType = [],
      resultImage = None, selectedPreset = p0, customPrompt = [],
      error = None, needsApiKey = False\<rparr>"

section \<open>JavaScript operators on strings\<close>

text \<open>
  \<^verbatim>\<open>!originalImage\<close> on a \<^verbatim>\<open>string | null\<close>: \<^verbatim>\<open>null\<close> and the
  empty string are falsy, every other string is truthy.
\<close>

fun truthy :: "string option \<Rightarrow> bool" where
  "truthy None = False"
| "truthy (Some s) = (s \<noteq> [])"

text \<open>\<^verbatim>\<open>a || b\<close> with a possibly undefined left operand.\<close>

fun or_else :: "string option \<Rightarrow> string \<Rightarrow> string" where
  "or_else None d = d"
| "or_else (Some s) d = (if s = [] then d else s)"

text \<open>\<^verbatim>\<open>String.prototype.startsWith\<close> and \<^verbatim>\<open>String.prototype.includes\<close>.\<close>

fun starts_with :: "string \<Rightarrow> string \<Rightarrow> bool" where
  "starts_with s [] = True"
| "starts_with [] (c # cs) = False"
| "starts_with (x # xs) (c # cs) = (if x = c then starts_with xs cs else False)"

fun includes_str :: "string \<Rightarrow> string \<Rightarrow> bool" where
  "includes_str [] sub = (sub = [])"
| "includes_str (x # xs) sub =
     (if starts_with (x # xs) sub then True else includes_str xs sub)"

text \<open>\<^verbatim>\<open>err.message?.includes(marker)\<close>: an undefined message gives a falsy value.\<close>

fun message_includes :: "string option \<Rightarrow> string \<Rightarrow> bool" where
  "message_includes None marker = False"
| "message_includes (Some m) marker = includes_str m marker"

section \<open>Prompt resolution (line 71)\<close>

text \<open>\<^verbatim>\<open>const prompt = customPrompt || selectedPreset.description;\<close>\<close>

definition resolve :: "string \<Rightarrow> Preset \<Rightarrow> string" where
  "resolve customText preset = or_else (Some customText) (description preset)"

section \<open>Event handlers\<close>

text \<open>
  \<^verbatim>\<open>window.aistudio\<close> is an optional host capability: \<open>None\<close> when the host does not
  provide it, \<open>Some k\<close> when it does and \<^verbatim>\<open>hasSelectedApiKey()\<close> resolves to \<open>k\<close>.
\<close>

definition checkKey :: "bool option \<Rightarrow> AppState \<Rightarrow> AppState" where
  "checkKey aistudio s =
     (case aistudio of None \<Rightarrow> s | Some hasKey \<Rightarrow> s\<lparr>needsApiKey := \<not> hasKey\<rparr>)"

definition handleSelectKey :: "bool option \<Rightarrow> AppState \<Rightarrow> AppState" where
  "handleSelectKey aistudio s =
     (case aistudio of None \<Rightarrow> s | Some hasKey \<Rightarrow> s\<lparr>needsApiKey := False\<rparr>)"

text \<open>
  \<^verbatim>\<open>handleFileChange\<close> starts a \<^verbatim>\<open>FileReader\<close>; the state changes in its
  \<^verbatim>\<open>onload\<close> callback, which receives the data URL and the file's media type.
\<close>

definition reader_onload :: "string \<Rightarrow> string \<Rightarrow> AppState \<Rightarrow> AppState" where
  "reader_onload dataUrl fileType s =
     s\<lparr>originalImage := Some dataUrl, originalMimeType := fileType,
       resultImage := None, status := IDLE, error := None\<rparr>"

definition handleStartOver :: "AppState \<Rightarrow> AppState" where
  "handleStartOver s =
     s\<lparr>originalImage := None, resultImage := None, originalMimeType := [],
       status := IDLE, error := None, customPrompt := []\<rparr>"

text \<open>The preset button's \<^verbatim>\<open>onClick\<close> (lines 191 to 194) and the textarea's \<^verbatim>\<open>onChange\<close>.\<close>

definition selectPreset :: "Preset \<Rightarrow> AppState \<Rightarrow> AppState" where
  "selectPreset preset s = s\<lparr>selectedPreset := preset, customPrompt := []\<rparr>"

definition changeCustomPrompt :: "string \<Rightarrow> AppState \<Rightarrow> AppState" where
  "changeCustomPrompt v s = s\<lparr>customPrompt := v\<rparr>"

text \<open>
  \<^verbatim>\<open>handleGenerate\<close> is an async function. Its synchronous part runs up to the
  \<^verbatim>\<open>await generateBackdrop(originalImage, originalMimeType, prompt)\<close>; it returns
  the state after the two setter calls together with the call it issued, if any.
  The continuation runs when the promise settles: \<open>handleGenerate_then\<close> is the
  rest of the \<^verbatim>\<open>try\<close> block, \<open>handleGenerate_catch\<close> the \<^verbatim>\<open>catch\<close> block. The
  setters write absolute values, so the continuation acts on whatever the state
  is when the promise settles.
\<close>

record GenerationRequest =
  imageData :: string
  mimeType :: string
  prompt :: string

definition handleGenerate :: "AppState \<Rightarrow> AppState \<times> GenerationRequest option" where
  "handleGenerate s =
     (case originalImage s of
        None \<Rightarrow> (s, None)
      | Some img \<Rightarrow>
          if img = [] then (s, None)
          else (s\<lparr>status := GENERATING, error := None\<rparr>,
                Some \<lparr>imageData = img, mimeType = originalMimeType s,
                      prompt = resolve (customPrompt s) (selectedPreset s)\<rparr>))"

definition handleGenerate_then :: "string \<Rightarrow> AppState \<Rightarrow> AppState" where
  "handleGenerate_then result s = s\<lparr>resultImage := Some result, status := SUCCESS\<rparr>"

definition credential_marker :: string where
  "credential_marker = ''API Key configuration''"

definition handleGenerate_catch :: "string option \<Rightarrow> AppState \<Rightarrow> AppState" where
  "handleGenerate_catch message s =
     (if message_includes message credential_marker
      then s\<lparr>error := Some (or_else message ''Something went wrong.''),
             status := ERROR, needsApiKey := True\<rparr>
      else s\<lparr>error := Some (or_else message ''Something went wrong.''),
             status := ERROR\<rparr>)"

section \<open>The component and its outstanding calls\<close>

text \<open>
  A call to \<^verbatim>\<open>generateBackdrop\<close> stays outstanding until its promise settles;
  nothing in the component cancels one. The system state is the component state
  together with the list of outstanding calls, oldest first.
\<close>

record System =
  app :: AppState
  inflight :: "GenerationRequest list"

definition initial_system :: "Preset \<Rightarrow> System" where
  "initial_system p0 = \<lparr>app = initial_state p0, inflight = []\<rparr>"

text \<open>Running \<^verbatim>\<open>handleGenerate\<close>: the call it issues, if any, joins the outstanding ones.\<close>

definition start :: "System \<Rightarrow> System" where
  "start sys =
     (case handleGenerate (app sys) of
        (a, None) \<Rightarrow> sys\<lparr>app := a\<rparr>
      | (a, Some req) \<Rightarrow> \<lparr>app = a, inflight = inflight sys @ [req]\<rparr>)"

definition reset :: "System \<Rightarrow> System" where
  "reset sys = sys\<lparr>app := handleStartOver (app sys)\<rparr>"

text \<open>The promise of an outstanding call settles: fulfilled with an image, or rejected
  with an error whose \<^verbatim>\<open>message\<close> may be undefined.\<close>

datatype Outcome = Fulfilled string | Rejected "string option"

fun settle :: "Outcome \<Rightarrow> AppState \<Rightarrow> AppState" where
  "settle (Fulfilled result) s = handleGenerate_then result s"
| "settle (Rejected message) s = handleGenerate_catch message s"

definition respond :: "nat \<Rightarrow> Outcome \<Rightarrow> System \<Rightarrow> System" where
  "respond i outcome sys =
     (if i < length (inflight sys)
      then \<lparr>app = settle outcome (app sys),
            inflight = take i (inflight sys) @ drop (Suc i) (inflight sys)\<rparr>
      else sys)"

text \<open>
  What the rendered page lets the user do. While \<^verbatim>\<open>needsApiKey\<close> holds, the
  component returns the onboarding screen only (line 98), whose single control
  is the connect button. Otherwise the main page is rendered; both generate
  buttons carry \<^verbatim>\<open>disabled={!originalImage || status === AppStatus.GENERATING}\<close>
  (lines 221 and 378), and a disabled button does not run its \<^verbatim>\<open>onClick\<close>.
\<close>

definition generate_disabled :: "AppState \<Rightarrow> bool" where
  "generate_disabled s =
     (if truthy (originalImage s) then status s = GENERATING else True)"

datatype Event =
    Mount "bool option"
  | ClickConnect "bool option"
  | FileLoaded string string
  | ClickPreset Preset
  | TypeCustom string
  | ClickGenerate
  | ClickStartOver
  | Respond nat Outcome

fun step :: "Event \<Rightarrow> System \<Rightarrow> System" where
  "step (Mount aistudio) sys = sys\<lparr>app := checkKey aistudio (app sys)\<rparr>"
| "step (ClickConnect aistudio) sys =
     (if needsApiKey (app sys) then sys\<lparr>app := handleSelectKey aistudio (app sys)\<rparr>
      else sys)"
| "step (FileLoaded dataUrl fileType) sys =
     sys\<lparr>app := reader_onload dataUrl fileType (app sys)\<rparr>"
| "step (ClickPreset preset) sys =
     (if needsApiKey (app sys) then sys
      else sys\<lparr>app := selectPreset preset (app sys)\<rparr>)"
| "step (TypeCustom v) sys =
     (if needsApiKey (app sys) then sys
      else sys\<lparr>app := changeCustomPrompt v (app sys)\<rparr>)"
| "step ClickGenerate sys =
     (if needsApiKey (app sys) then sys
      else if generate_disabled (app sys) then sys
      else start sys)"
| "step ClickStartOver sys =
     (if needsApiKey (app sys) then sys else reset sys)"
| "step (Respond i outcome) sys = respond i outcome sys"

fun run :: "Event list \<Rightarrow> System \<Rightarrow> System" where
  "run [] sys = sys"
| "run (e # es) sys = run es (step e sys)"

text \<open>Concrete data for the scenarios below.\<close>

definition studio_white :: Preset where
  "studio_white =
     \<lparr>preset_id = ''studio-white'', preset_name = ''Studio White'',
      description = ''clean white studio backdrop'', icon = ''fa-sun''\<rparr>"

definition photo :: Event where
  "photo = FileLoaded ''data:image/png;base64,AAAA'' ''image/png''"

definition ready_system :: System where
  "ready_system = run [photo] (initial_system studio_white)"

definition generating_system :: System where
  "generating_system = run [photo, ClickGenerate] (initial_system studio_white)"

definition abandoned_system :: System where
  "abandoned_system =
     run [photo, ClickGenerate, ClickStartOver] (initial_system studio_white)"

definition succeeded_system :: System where
  "succeeded_system =
     run [photo, ClickGenerate, Respond 0 (Fulfilled ''data:image/png;base64,RRRR'')]
       (initial_system studio_white)"

section \<open>Auxiliary facts\<close>

lemmas handler_defs =
  checkKey_def handleSelectKey_def reader_onload_def handleStartOver_def
  selectPreset_def changeCustomPrompt_def handleGenerate_def
  handleGenerate_then_def handleGenerate_catch_def resolve_def credential_marker_def

lemmas system_defs =
  initial_system_def initial_state_def start_def reset_def respond_def
  generate_disabled_def studio_white_def photo_def

lemmas scenario_defs =
  ready_system_def generating_system_def abandoned_system_def succeeded_system_def

text \<open>The two string searches compute what their JavaScript names promise.\<close>

lemma starts_with_prefix: "starts_with s sub = prefix sub s"
  by (induction s sub rule: starts_with.induct) auto

lemma includes_str_sublist: "includes_str s sub = sublist sub s"
proof (induction s)
  case Nil
  then show ?case by simp
next
  case (Cons x xs)
  then show ?case
    by (simp add: starts_with_prefix sublist_Cons_right)
qed

lemma message_includes_iff:
  "message_includes m marker = (\<exists>t pre post. m = Some t \<and> t = pre @ marker @ post)"
  by (cases m) (auto simp: includes_str_sublist sublist_def)

text \<open>With a source image present, \<^verbatim>\<open>handleGenerate\<close> issues exactly one call.\<close>

lemma handleGenerate_present:
  assumes "originalImage s = Some img" and "img \<noteq> []"
  shows "handleGenerate s =
           (s\<lparr>status := GENERATING, error := None\<rparr>,
            Some \<lparr>imageData = img, mimeType = originalMimeType s,
                  prompt = resolve (customPrompt s) (selectedPreset s)\<rparr>)"
  using assms by (simp add: handleGenerate_def)

lemma handleGenerate_absent:
  "\<not> truthy (originalImage s) \<Longrightarrow> handleGenerate s = (s, None)"
  by (cases "originalImage s") (auto simp: handleGenerate_def)

lemma start_present:
  assumes "originalImage (app sys) = Some img" and "img \<noteq> []"
  shows "start sys =
           \<lparr>app = (app sys)\<lparr>status := GENERATING, error := None\<rparr>,
            inflight = inflight sys @
              [\<lparr>imageData = img, mimeType = originalMimeType (app sys),
                prompt = resolve (customPrompt (app sys)) (selectedPreset (app sys))\<rparr>]\<rparr>"
  using assms by (simp add: start_def handleGenerate_present)

lemma respond_newest:
  "respond (length qs) outcome \<lparr>app = a, inflight = qs @ [q]\<rparr> =
     \<lparr>app = settle outcome a, inflight = qs\<rparr>"
  by (simp add: respond_def)

text \<open>The scenarios, evaluated.\<close>

lemma ready_system_eq:
  "ready_system =
     \<lparr>app = (initial_state studio_white)
              \<lparr>originalImage := Some ''data:image/png;base64,AAAA'',
               originalMimeType := ''image/png''\<rparr>,
      inflight = []\<rparr>"
  by (simp add: scenario_defs system_defs handler_defs)

lemma generating_system_eq:
  "generating_system =
     \<lparr>app = (initial_state studio_white)
              \<lparr>originalImage := Some ''data:image/png;base64,AAAA'',
               originalMimeType := ''image/png'', status := GENERATING\<rparr>,
      inflight = [\<lparr>imageData = ''data:image/png;base64,AAAA'', mimeType = ''image/png'',
                   prompt = ''clean white studio backdrop''\<rparr>]\<rparr>"
  by (simp add: scenario_defs system_defs handler_defs)

lemma abandoned_system_eq:
  "abandoned_system =
     \<lparr>app = initial_state studio_white,
      inflight = [\<lparr>imageData = ''data:image/png;base64,AAAA'', mimeType = ''image/png'',
                   prompt = ''clean white studio backdrop''\<rparr>]\<rparr>"
  by (simp add: scenario_defs system_defs handler_defs)

lemma succeeded_system_eq:
  "succeeded_system =
     \<lparr>app = (initial_state studio_white)
              \<lparr>originalImage := Some ''data:image/png;base64,AAAA'',
               originalMimeType := ''image/png'', status := SUCCESS,
               resultImage := Some ''data:image/png;base64,RRRR''\<rparr>,
      inflight = []\<rparr>"
  by (simp add: scenario_defs system_defs handler_defs)

text \<open>Every event keeps: while the status is \<open>IDLE\<close> there is no result image.\<close>

lemma step_idle_no_result:
  assumes "status (app sys) = IDLE \<longrightarrow> resultImage (app sys) = None"
  shows "status (app (step e sys)) = IDLE \<longrightarrow> resultImage (app (step e sys)) = None"
proof (cases e)
  case ClickGenerate
  then show ?thesis using assms
    by (cases "originalImage (app sys)")
       (auto simp: start_def handleGenerate_def)
next
  case (Respond i outcome)
  then show ?thesis using assms
    by (cases outcome)
       (auto simp: respond_def handleGenerate_then_def handleGenerate_catch_def)
qed (use assms in \<open>auto simp: checkKey_def handleSelectKey_def reader_onload_def
       selectPreset_def changeCustomPrompt_def reset_def handleStartOver_def
       split: option.splits\<close>)

lemma run_idle_no_result:
  "status (app sys) = IDLE \<longrightarrow> resultImage (app sys) = None \<Longrightarrow>
   status (app (run es sys)) = IDLE \<longrightarrow> resultImage (app (run es sys)) = None"
proof (induction es arbitrary: sys)
  case Nil
  then show ?case by simp
next
  case (Cons e es)
  from Cons.prems have "status (app (step e sys)) = IDLE \<longrightarrow> resultImage (app (step e sys)) = None"
    by (rule step_idle_no_result)
  then show ?case using Cons.IH by simp
qed

section \<open>Theorems\<close>

subsection \<open>Responses of superseded attempts\<close>

text \<open>
  C1, as the code has it. The component keeps no attempt token: \<^verbatim>\<open>handleGenerate\<close>
  commits whatever its promise settles with, in whatever state the component
  then is, whether or not \<^verbatim>\<open>handleStartOver\<close> or a later \<^verbatim>\<open>handleGenerate\<close>
  ran in between. A fulfilled call writes \<^verbatim>\<open>resultImage\<close> and \<^verbatim>\<open>status\<close> and
  nothing else; a rejected call writes \<^verbatim>\<open>error\<close> and \<^verbatim>\<open>status\<close>, raises
  \<^verbatim>\<open>needsApiKey\<close> when the message holds the marker, and nothing else.
\<close>

theorem stale_response_committed:
  assumes "i < length (inflight sys)"
  shows "app (respond i (Fulfilled r) sys) =
           (app sys)\<lparr>resultImage := Some r, status := SUCCESS\<rparr> \<and>
         app (respond i (Rejected m) sys) =
           (app sys)\<lparr>error := Some (or_else m ''Something went wrong.''), status := ERROR,
                     needsApiKey :=
                       (if message_includes m credential_marker then True
                        else needsApiKey (app sys))\<rparr>"
  using assms by (simp add: respond_def handleGenerate_then_def handleGenerate_catch_def)

theorem stale_response_committed_witness:
  "0 < length (inflight abandoned_system) \<and>
   app (respond 0 (Fulfilled ''R1'') abandoned_system) =
     (initial_state studio_white)\<lparr>resultImage := Some ''R1'', status := SUCCESS\<rparr> \<and>
   app (respond 0 (Rejected (Some ''quota exceeded'')) abandoned_system) =
     (initial_state studio_white)\<lparr>error := Some ''quota exceeded'', status := ERROR\<rparr>"
proof -
  have pending: "0 < length (inflight abandoned_system)"
    by (simp add: abandoned_system_eq)
  have no: "\<not> message_includes (Some ''quota exceeded'') credential_marker"
    by (simp add: credential_marker_def)
  show ?thesis
    using stale_response_committed [OF pending, of "''R1''" "Some ''quota exceeded''"] pending no
    by (simp add: abandoned_system_eq initial_state_def)
qed

text \<open>
  The discard the specification asks for does not happen: after upload, generate
  and start over, the response of the abandoned call turns the idle, empty
  state into \<open>SUCCESS\<close> with a result, or into \<open>ERROR\<close> with a message and the
  credential flag raised.
\<close>

theorem stale_response_counterexample:
  "status (app abandoned_system) = IDLE \<and>
   resultImage (app abandoned_system) = None \<and>
   error (app abandoned_system) = None \<and>
   \<not> needsApiKey (app abandoned_system) \<and>
   status (app (step (Respond 0 (Fulfilled ''R1'')) abandoned_system)) = SUCCESS \<and>
   resultImage (app (step (Respond 0 (Fulfilled ''R1'')) abandoned_system)) = Some ''R1'' \<and>
   status (app (step (Respond 0 (Rejected (Some ''API Key configuration invalid'')))
                  abandoned_system)) = ERROR \<and>
   error (app (step (Respond 0 (Rejected (Some ''API Key configuration invalid'')))
                 abandoned_system)) = Some ''API Key configuration invalid'' \<and>
   needsApiKey (app (step (Respond 0 (Rejected (Some ''API Key configuration invalid'')))
                       abandoned_system))"
  by (simp add: abandoned_system_eq initial_state_def respond_def handler_defs)

subsection \<open>Generate while generating\<close>

text \<open>
  C2, as the code has it. While \<^verbatim>\<open>status === AppStatus.GENERATING\<close> both generate
  buttons are disabled, so a click changes nothing: the component state and the
  outstanding calls are what they were.
\<close>

theorem generate_click_while_generating:
  "status (app sys) = GENERATING \<Longrightarrow> step ClickGenerate sys = sys"
  by (simp add: generate_disabled_def)

theorem generate_click_while_generating_witness:
  "status (app generating_system) = GENERATING \<and>
   step ClickGenerate generating_system = generating_system \<and>
   length (inflight (step ClickGenerate generating_system)) = 1"
proof -
  have gen: "status (app generating_system) = GENERATING"
    by (simp add: generating_system_eq)
  show ?thesis
    using generate_click_while_generating [OF gen] gen
    by (simp add: generating_system_eq)
qed

text \<open>
  The guard is the \<^verbatim>\<open>disabled\<close> attribute only. Start over puts the status back
  to \<open>IDLE\<close> without cancelling the outstanding call, so after a new upload a
  second call joins the first; and \<^verbatim>\<open>handleGenerate\<close> itself, run in a generating
  state, issues a second call as well.
\<close>

theorem single_flight_counterexample:
  "status (app (run [photo, ClickGenerate, ClickStartOver, photo, ClickGenerate]
                  (initial_system studio_white))) = GENERATING \<and>
   length (inflight (run [photo, ClickGenerate, ClickStartOver, photo, ClickGenerate]
                       (initial_system studio_white))) = 2 \<and>
   status (app generating_system) = GENERATING \<and>
   length (inflight (start generating_system)) = 2"
  by (simp add: generating_system_eq system_defs handler_defs)

subsection \<open>Where a result image can be present\<close>

text \<open>
  C3, as the code has it. In every state reached from the initial one by any
  sequence of events (mount check, connect, upload, preset, custom text,
  generate, start over, responses in any order), an \<open>IDLE\<close> status comes with
  no result image: a result is present only under \<open>GENERATING\<close>, \<open>SUCCESS\<close> or
  \<open>ERROR\<close>.
\<close>

theorem result_absent_when_idle:
  "status (app (run es (initial_system p0))) = IDLE \<Longrightarrow>
   resultImage (app (run es (initial_system p0))) = None"
  using run_idle_no_result [of "initial_system p0" es]
  by (simp add: initial_system_def initial_state_def)

theorem result_absent_when_idle_witness:
  "status (app (run [photo, ClickGenerate, Respond 0 (Fulfilled ''R1''), ClickStartOver]
                  (initial_system studio_white))) = IDLE \<and>
   resultImage (app (run [photo, ClickGenerate, Respond 0 (Fulfilled ''R1''), ClickStartOver]
                       (initial_system studio_white))) = None"
proof -
  have idle: "status (app (run [photo, ClickGenerate, Respond 0 (Fulfilled ''R1''), ClickStartOver]
                  (initial_system studio_white))) = IDLE"
    by (simp add: system_defs handler_defs)
  show ?thesis
    using result_absent_when_idle [OF idle] idle by simp
qed

text \<open>
  A result outlives its \<open>SUCCESS\<close>: generating again keeps it under \<open>GENERATING\<close>,
  and a failure of that second call keeps it under \<open>ERROR\<close>.
\<close>

theorem result_outside_success_counterexample:
  "status (app (run [photo, ClickGenerate, Respond 0 (Fulfilled ''R1''), ClickGenerate]
                  (initial_system studio_white))) = GENERATING \<and>
   resultImage (app (run [photo, ClickGenerate, Respond 0 (Fulfilled ''R1''), ClickGenerate]
                       (initial_system studio_white))) = Some ''R1'' \<and>
   status (app (run [photo, ClickGenerate, Respond 0 (Fulfilled ''R1''), ClickGenerate,
                     Respond 0 (Rejected (Some ''quota exceeded''))]
                  (initial_system studio_white))) = ERROR \<and>
   resultImage (app (run [photo, ClickGenerate, Respond 0 (Fulfilled ''R1''), ClickGenerate,
                          Respond 0 (Rejected (Some ''quota exceeded''))]
                       (initial_system studio_white))) = Some ''R1''"
  by (simp add: system_defs handler_defs)

subsection \<open>A failing generation\<close>

text \<open>
  C4, as the code has it. With a source image present, \<^verbatim>\<open>handleGenerate\<close> followed by
  the rejection of its call gives status \<open>ERROR\<close>; the error is the message
  itself when the message is a non-empty string, and the fixed text
  \<^verbatim>\<open>Something went wrong.\<close> when the message is empty or undefined; the result
  image is the one from before the call; no further call is issued.
\<close>

theorem generate_failure:
  assumes "originalImage (app sys) = Some img" and "img \<noteq> []"
  shows "status (app (respond (length (inflight sys)) (Rejected m) (start sys))) = ERROR \<and>
         (\<forall>t. m = Some t \<and> t \<noteq> [] \<longrightarrow>
            error (app (respond (length (inflight sys)) (Rejected m) (start sys))) = Some t) \<and>
         (m = None \<or> m = Some [] \<longrightarrow>
            error (app (respond (length (inflight sys)) (Rejected m) (start sys))) =
              Some ''Something went wrong.'') \<and>
         resultImage (app (respond (length (inflight sys)) (Rejected m) (start sys))) =
           resultImage (app sys) \<and>
         inflight (respond (length (inflight sys)) (Rejected m) (start sys)) = inflight sys"
  by (auto simp: start_present [OF assms] respond_newest handleGenerate_catch_def)

theorem generate_failure_witness:
  "originalImage (app succeeded_system) = Some ''data:image/png;base64,AAAA'' \<and>
   ''data:image/png;base64,AAAA'' \<noteq> [] \<and>
   ''quota exceeded'' \<noteq> [] \<and>
   status (app (respond 0 (Rejected (Some ''quota exceeded'')) (start succeeded_system))) = ERROR \<and>
   error (app (respond 0 (Rejected (Some ''quota exceeded'')) (start succeeded_system))) =
     Some ''quota exceeded'' \<and>
   error (app (respond 0 (Rejected None) (start succeeded_system))) =
     Some ''Something went wrong.'' \<and>
   resultImage (app (respond 0 (Rejected (Some ''quota exceeded'')) (start succeeded_system))) =
     Some ''data:image/png;base64,RRRR'' \<and>
   inflight (respond 0 (Rejected (Some ''quota exceeded'')) (start succeeded_system)) = []"
proof -
  have img: "originalImage (app succeeded_system) = Some ''data:image/png;base64,AAAA''"
    by (simp add: succeeded_system_eq)
  have ne: "''data:image/png;base64,AAAA'' \<noteq> []"
    by simp
  have none: "inflight succeeded_system = []"
    by (simp add: succeeded_system_eq)
  have res: "resultImage (app succeeded_system) = Some ''data:image/png;base64,RRRR''"
    by (simp add: succeeded_system_eq)
  show ?thesis
    using generate_failure [OF img ne, of "Some ''quota exceeded''"]
      generate_failure [OF img ne, of None] img
    by (simp add: none res)
qed

text \<open>An empty message is not shown verbatim: \<^verbatim>\<open>err.message || "Something went wrong."\<close>.\<close>

theorem generate_failure_counterexample:
  "error (app (run [photo, ClickGenerate, Respond 0 (Rejected (Some []))]
                 (initial_system studio_white))) = Some ''Something went wrong.'' \<and>
   error (app (run [photo, ClickGenerate, Respond 0 (Rejected (Some []))]
                 (initial_system studio_white))) \<noteq> Some []"
  by (simp add: system_defs handler_defs)

subsection \<open>Clearing the result image\<close>

text \<open>
  C5, as the code has it. \<^verbatim>\<open>handleStartOver\<close> clears the result image, and so does
  the \<^verbatim>\<open>onload\<close> of a new upload; \<^verbatim>\<open>handleGenerate\<close> leaves it as it is.
\<close>

theorem result_cleared_by_reset_not_by_start:
  "resultImage (handleStartOver s) = None \<and>
   resultImage (reader_onload dataUrl fileType s) = None \<and>
   resultImage (fst (handleGenerate s)) = resultImage s"
  by (cases "originalImage s") (auto simp: handleStartOver_def reader_onload_def handleGenerate_def)

text \<open>Starting a second generation after a success: the call is issued, the result stays.\<close>

theorem result_kept_by_start_counterexample:
  "resultImage (app succeeded_system) = Some ''data:image/png;base64,RRRR'' \<and>
   status (app (start succeeded_system)) = GENERATING \<and>
   length (inflight (start succeeded_system)) = 1 \<and>
   resultImage (app (start succeeded_system)) = Some ''data:image/png;base64,RRRR''"
  by (simp add: succeeded_system_eq start_def handleGenerate_def initial_state_def)

subsection \<open>A successful generation\<close>

text \<open>
  C6. With a source image present, and whatever the preset and the custom text,
  \<^verbatim>\<open>handleGenerate\<close> followed by the fulfilment of its call with \<open>R\<close> gives status
  \<open>SUCCESS\<close> and result image \<open>R\<close>. The call carries the image, its media type
  and the resolved prompt, and is no longer outstanding afterwards.
\<close>

theorem generate_success:
  assumes "originalImage (app sys) = Some img" and "img \<noteq> []"
  shows "status (app (respond (length (inflight sys)) (Fulfilled R) (start sys))) = SUCCESS \<and>
         resultImage (app (respond (length (inflight sys)) (Fulfilled R) (start sys))) = Some R \<and>
         inflight (respond (length (inflight sys)) (Fulfilled R) (start sys)) = inflight sys \<and>
         inflight (start sys) =
           inflight sys @
             [\<lparr>imageData = img, mimeType = originalMimeType (app sys),
               prompt = resolve (customPrompt (app sys)) (selectedPreset (app sys))\<rparr>]"
  by (simp add: start_present [OF assms] respond_newest handleGenerate_then_def)

theorem generate_success_witness:
  "originalImage (app ready_system) = Some ''data:image/png;base64,AAAA'' \<and>
   ''data:image/png;base64,AAAA'' \<noteq> [] \<and>
   status (app (respond 0 (Fulfilled ''R1'') (start ready_system))) = SUCCESS \<and>
   resultImage (app (respond 0 (Fulfilled ''R1'') (start ready_system))) = Some ''R1'' \<and>
   inflight (respond 0 (Fulfilled ''R1'') (start ready_system)) = [] \<and>
   inflight (start ready_system) =
     [\<lparr>imageData = ''data:image/png;base64,AAAA'', mimeType = ''image/png'',
       prompt = ''clean white studio backdrop''\<rparr>]"
proof -
  have img: "originalImage (app ready_system) = Some ''data:image/png;base64,AAAA''"
    by (simp add: ready_system_eq)
  have ne: "''data:image/png;base64,AAAA'' \<noteq> []"
    by simp
  have none: "inflight ready_system = []"
    by (simp add: ready_system_eq)
  show ?thesis
    using generate_success [OF img ne, of "''R1''"] img
    by (simp add: none ready_system_eq initial_state_def resolve_def studio_white_def)
qed

subsection \<open>Start over\<close>

text \<open>
  C7. \<^verbatim>\<open>handleStartOver\<close>, from any state, gives status \<open>IDLE\<close> and clears the
  source image, its media type, the result image, the error and the custom
  prompt; the selected preset and the credential flag are left as they were.
\<close>

theorem reset_clears_workflow:
  "handleStartOver s =
     \<lparr>status = IDLE, originalImage = None, originalMimeType = [],
      resultImage = None, selectedPreset = selectedPreset s, customPrompt = [],
      error = None, needsApiKey = needsApiKey s\<rparr>"
  by (simp add: handleStartOver_def)

subsection \<open>Prompt resolution\<close>

text \<open>
  C8. The prompt is a function of the custom text and the selected preset alone:
  a non-empty custom text is the prompt, untrimmed; an empty custom text gives
  the preset's description, empty or not. It is the prompt of the call that
  \<^verbatim>\<open>handleGenerate\<close> issues.
\<close>

theorem prompt_resolution:
  "(X \<noteq> [] \<longrightarrow> resolve X preset = X) \<and>
   resolve [] preset = description preset \<and>
   (truthy (originalImage s) \<longrightarrow>
      map_option prompt (snd (handleGenerate s)) =
        Some (resolve (customPrompt s) (selectedPreset s)))"
  by (cases "originalImage s") (auto simp: resolve_def handleGenerate_def)

theorem prompt_resolution_witness:
  "''sunset beach'' \<noteq> [] \<and>
   resolve ''sunset beach'' studio_white = ''sunset beach'' \<and>
   resolve [] studio_white = ''clean white studio backdrop'' \<and>
   truthy (originalImage (app (step (TypeCustom ''sunset beach'') ready_system))) \<and>
   map_option prompt
     (snd (handleGenerate (app (step (TypeCustom ''sunset beach'') ready_system)))) =
     Some ''sunset beach''"
  using prompt_resolution [of "''sunset beach''" studio_white
      "app (step (TypeCustom ''sunset beach'') ready_system)"]
  by (simp add: ready_system_eq initial_state_def changeCustomPrompt_def resolve_def
      studio_white_def)

subsection \<open>Credential classification\<close>

text \<open>
  C9. When an outstanding call is rejected, the status becomes \<open>ERROR\<close>; the
  credential flag is raised if the message includes \<^verbatim>\<open>API Key configuration\<close>
  and keeps its value otherwise (also when the message is undefined).
\<close>

theorem credential_classification:
  assumes "i < length (inflight sys)"
  shows "(message_includes m credential_marker \<longrightarrow>
            needsApiKey (app (respond i (Rejected m) sys)) \<and>
            status (app (respond i (Rejected m) sys)) = ERROR) \<and>
         (\<not> message_includes m credential_marker \<longrightarrow>
            needsApiKey (app (respond i (Rejected m) sys)) = needsApiKey (app sys) \<and>
            status (app (respond i (Rejected m) sys)) = ERROR)"
  using assms by (simp add: respond_def handleGenerate_catch_def)

theorem credential_classification_witness:
  "0 < length (inflight generating_system) \<and>
   message_includes (Some ''API Key configuration invalid'') credential_marker \<and>
   needsApiKey
     (app (respond 0 (Rejected (Some ''API Key configuration invalid'')) generating_system)) \<and>
   status
     (app (respond 0 (Rejected (Some ''API Key configuration invalid'')) generating_system)) =
     ERROR \<and>
   \<not> message_includes (Some ''quota exceeded'') credential_marker \<and>
   \<not> needsApiKey (app (respond 0 (Rejected (Some ''quota exceeded'')) generating_system)) \<and>
   status (app (respond 0 (Rejected (Some ''quota exceeded'')) generating_system)) = ERROR"
proof -
  have pending: "0 < length (inflight generating_system)"
    by (simp add: generating_system_eq)
  have yes: "message_includes (Some ''API Key configuration invalid'') credential_marker"
    by (simp add: credential_marker_def)
  have no: "\<not> message_includes (Some ''quota exceeded'') credential_marker"
    by (simp add: credential_marker_def)
  have before: "\<not> needsApiKey (app generating_system)"
    by (simp add: generating_system_eq initial_state_def)
  show ?thesis
    using credential_classification [OF pending, of "Some ''API Key configuration invalid''"]
      credential_classification [OF pending, of "Some ''quota exceeded''"]
      pending yes no before
    by simp
qed

subsection \<open>Preset selection\<close>

text \<open>
  C10. Clicking a preset makes it the selected one and empties the custom text;
  status, source image, media type, result image, error and credential flag keep
  their values, and a generation started next sends that preset's description.
\<close>

theorem preset_selection:
  "selectedPreset (selectPreset p s) = p \<and>
   customPrompt (selectPreset p s) = [] \<and>
   status (selectPreset p s) = status s \<and>
   originalImage (selectPreset p s) = originalImage s \<and>
   originalMimeType (selectPreset p s) = originalMimeType s \<and>
   resultImage (selectPreset p s) = resultImage s \<and>
   error (selectPreset p s) = error s \<and>
   needsApiKey (selectPreset p s) = needsApiKey s \<and>
   (truthy (originalImage s) \<longrightarrow>
      map_option prompt (snd (handleGenerate (selectPreset p s))) = Some (description p))"
  by (cases "originalImage s") (auto simp: selectPreset_def handleGenerate_def resolve_def)

theorem preset_selection_witness:
  "truthy (originalImage (app (step (TypeCustom ''sunset beach'') ready_system))) \<and>
   customPrompt (app (step (TypeCustom ''sunset beach'') ready_system)) = ''sunset beach'' \<and>
   customPrompt
     (selectPreset studio_white (app (step (TypeCustom ''sunset beach'') ready_system))) = [] \<and>
   map_option prompt
     (snd (handleGenerate
        (selectPreset studio_white (app (step (TypeCustom ''sunset beach'') ready_system))))) =
     Some ''clean white studio backdrop''"
  using preset_selection [of studio_white "app (step (TypeCustom ''sunset beach'') ready_system)"]
  by (simp add: ready_system_eq initial_state_def changeCustomPrompt_def studio_white_def)

end
